theory Spec2Isabelle
  imports Main "HOL-Library.Sublist"
begin

section \<open>Python values and exceptions used by \<^verbatim>\<open>aospy/io.py\<close>\<close>

text \<open>
  The functions of \<^verbatim>\<open>io.py\<close> are pure string and integer computations. Python's
  unbounded integers are \<^typ>\<open>int\<close>, its strings are \<^typ>\<open>string\<close> (ASCII only), and
  every exception the modelled code can raise is a value of \<open>pyexc\<close>; a function that
  may raise returns \<open>pyexc + 'a\<close> with \<open>Inl\<close> for the exception.

  Python identifiers that begin with an underscore lose it here, since an Isabelle name
  cannot start with one: \<^verbatim>\<open>_yr_label\<close> is \<open>yr_label\<close>, and so on.
\<close>

datatype pyexc =
  AssertionError | IndexError | TypeError | UnboundLocalError | ValueError | ZeroDivisionError

subsection \<open>\<^verbatim>\<open>str(int)\<close> and the format specs \<^verbatim>\<open>{:04d}\<close>, \<^verbatim>\<open>{:02}\<close>\<close>

definition digit_char :: "nat \<Rightarrow> char" where
  "digit_char d = ''0123456789'' ! d"

function str_nat :: "nat \<Rightarrow> string" where
  "str_nat n = (if n < 10 then [digit_char n] else str_nat (n div 10) @ [digit_char (n mod 10)])"
  by pat_completeness auto
termination
  by (relation "measure (\<lambda>n. n)") auto

declare str_nat.simps [simp del]

text \<open>\<^verbatim>\<open>str(i)\<close> for an integer: a minus sign for a negative number, then the digits.\<close>

definition str_int :: "int \<Rightarrow> string" where
  "str_int i = (if i < 0 then CHR ''-'' # str_nat (nat (- i)) else str_nat (nat i))"

text \<open>
  \<^verbatim>\<open>'{:0wd}'.format(i)\<close>: the sign comes first, then zeros up to a total width of \<open>w\<close>,
  then the digits. A number with more digits than the width is printed in full.
\<close>

definition format_0d :: "nat \<Rightarrow> int \<Rightarrow> string" where
  "format_0d w i =
     (let sign = (if i < 0 then ''-'' else '''');
          ds = str_nat (nat \<bar>i\<bar>)
      in sign @ replicate (w - length sign - length ds) CHR ''0'' @ ds)"

abbreviation format_04d :: "int \<Rightarrow> string" where
  "format_04d \<equiv> format_0d 4"

abbreviation format_02 :: "int \<Rightarrow> string" where
  "format_02 \<equiv> format_0d 2"

text \<open>\<^verbatim>\<open>range(a, b)\<close> over integers, as the list of its elements.\<close>

definition py_range :: "int \<Rightarrow> int \<Rightarrow> int list" where
  "py_range a b = [a..b - 1]"

subsection \<open>\<^verbatim>\<open>str.lower\<close>, \<^verbatim>\<open>str.find\<close> and \<^verbatim>\<open>in\<close> on strings\<close>

definition lower_char :: "char \<Rightarrow> char" where
  "lower_char c =
     (let k = of_char c :: nat in if 65 \<le> k \<and> k \<le> 90 then char_of (k + 32) else c)"

definition lower :: "string \<Rightarrow> string" where
  "lower s = map lower_char s"

text \<open>
  \<^verbatim>\<open>hay.find(sub)\<close>: the lowest index at which \<open>sub\<close> starts in \<open>hay\<close>, or \<open>-1\<close>.
  \<open>find_from\<close> carries the index of the position it looks at.
\<close>

fun find_from :: "nat \<Rightarrow> string \<Rightarrow> string \<Rightarrow> int" where
  "find_from i [] sub = (if sub = [] then int i else - 1)"
| "find_from i (c # cs) sub =
     (if prefix sub (c # cs) then int i else find_from (Suc i) cs sub)"

definition find :: "string \<Rightarrow> string \<Rightarrow> int" where
  "find hay sub = find_from 0 hay sub"

text \<open>\<^verbatim>\<open>sub in s\<close> for two strings.\<close>

definition str_in :: "string \<Rightarrow> string \<Rightarrow> bool" where
  "str_in sub s = (find s sub \<noteq> - 1)"

text \<open>
  What the claims call the first occurrence of \<open>sub\<close> in \<open>hay\<close>: \<open>sub\<close> starts at
  position \<open>p\<close> and at no position before it. This is the yardstick \<open>find\<close> is measured
  against, not a part of the source.
\<close>

definition first_occurrence :: "string \<Rightarrow> string \<Rightarrow> nat \<Rightarrow> bool" where
  "first_occurrence hay sub p =
     (p \<le> length hay \<and> prefix sub (drop p hay) \<and> (\<forall>q \<in> {0..<p}. \<not> prefix sub (drop q hay)))"

section \<open>Component labels\<close>

subsection \<open>\<^verbatim>\<open>_ens_label\<close>\<close>

text \<open>
  The ensemble member is \<^verbatim>\<open>None\<close>, a bool, an integer or a string. The first test of
  the source is \<^verbatim>\<open>ens_mem in (None, False)\<close>; membership in a tuple is by \<^verbatim>\<open>==\<close>, and
  in Python \<^verbatim>\<open>0 == False\<close> holds.
\<close>

datatype ens_mem = MemNone | MemBool bool | MemInt int | MemStr string

fun eq_False :: "ens_mem \<Rightarrow> bool" where
  "eq_False (MemBool b) = (\<not> b)"
| "eq_False (MemInt k) = (k = 0)"
| "eq_False _ = False"

definition in_None_False :: "ens_mem \<Rightarrow> bool" where
  "in_None_False m = (m = MemNone \<or> eq_False m)"

text \<open>\<^verbatim>\<open>ens_mem + 1\<close>: defined on integers and bools, a \<^verbatim>\<open>TypeError\<close> otherwise.\<close>

fun plus_one :: "ens_mem \<Rightarrow> pyexc + int" where
  "plus_one (MemInt k) = Inr (k + 1)"
| "plus_one (MemBool b) = Inr ((if b then 1 else 0) + 1)"
| "plus_one _ = Inl TypeError"

definition ens_label :: "ens_mem \<Rightarrow> pyexc + string" where
  "ens_label m =
     (if in_None_False m then Inr ''''
      else if m = MemStr ''avg'' then Inr ''ens_mean''
      else (case plus_one m of Inl e \<Rightarrow> Inl e | Inr k \<Rightarrow> Inr (''mem'' @ str_int k)))"

subsection \<open>\<^verbatim>\<open>_yr_label\<close>\<close>

text \<open>
  \<open>yr_range\<close> is a pair of years or \<^verbatim>\<open>None\<close>; the assertion of the source is the only
  check made on it.
\<close>

definition yr_label :: "(int \<times> int) option \<Rightarrow> pyexc + string" where
  "yr_label yr_range =
     (case yr_range of
        None \<Rightarrow> Inl AssertionError
      | Some (y0, y1) \<Rightarrow>
          if y0 = y1 then Inr (format_04d y0)
          else Inr (format_04d y0 @ ''-'' @ format_04d y1))"

section \<open>Time interval labels\<close>

subsection \<open>\<^verbatim>\<open>_time_label\<close>\<close>

text \<open>
  The interval is one of:
  \<^item> an integer, \<open>IntvlInt\<close>;
  \<^item> a list or a tuple of integers, \<open>IntvlSeq\<close>;
  \<^item> a one-dimensional \<^verbatim>\<open>np.ndarray\<close> of integers, \<open>IntvlArray\<close>;
  \<^item> any other container of integers that can be iterated as often as one likes, such as
    a \<^verbatim>\<open>set\<close>, a \<^verbatim>\<open>frozenset\<close> or a \<^verbatim>\<open>range\<close>, \<open>IntvlIterable\<close>, with its elements in
    the order of iteration;
  \<^item> an iterator or a generator, which yields its elements once, \<open>IntvlIterator\<close>, with
    the elements it has still to yield;
  \<^item> a string, \<open>IntvlStr\<close>.
\<close>

datatype intvl =
  IntvlInt int | IntvlSeq "int list" | IntvlArray "int list" | IntvlIterable "int list"
| IntvlIterator "int list" | IntvlStr string

text \<open>
  The truth value of \<^verbatim>\<open>intvl == lbl\<close>, which the \<^verbatim>\<open>or\<close> of the loop asks for. Two
  strings are compared as strings. An array is compared element by element and the
  result is an array of as many \<^verbatim>\<open>False\<close>; such an array has a truth value only if it
  has one element, and asking for it raises \<^verbatim>\<open>ValueError\<close> otherwise. Anything else is
  not equal to a string.
\<close>

fun eq_label :: "intvl \<Rightarrow> string \<Rightarrow> pyexc + bool" where
  "eq_label (IntvlStr s) lbl = Inr (s = lbl)"
| "eq_label (IntvlArray xs) lbl = (if length xs = 1 then Inr False else Inl ValueError)"
| "eq_label _ lbl = Inr False"

text \<open>
  \<^verbatim>\<open>set(intvl)\<close>. Its elements are integers for a collection of integers and
  one-character strings for a string, so the two kinds of element are kept apart in
  \<open>elem\<close>; \<^verbatim>\<open>set(intvl)\<close> of an integer raises \<^verbatim>\<open>TypeError\<close>. The call runs an iterator
  to its end, so the interval as it is after the call is returned with the set.
\<close>

datatype elem = ElInt int | ElChr char

fun py_set :: "intvl \<Rightarrow> pyexc + elem set \<times> intvl" where
  "py_set (IntvlInt n) = Inl TypeError"
| "py_set (IntvlSeq xs) = Inr (ElInt ` set xs, IntvlSeq xs)"
| "py_set (IntvlArray xs) = Inr (ElInt ` set xs, IntvlArray xs)"
| "py_set (IntvlIterable xs) = Inr (ElInt ` set xs, IntvlIterable xs)"
| "py_set (IntvlIterator xs) = Inr (ElInt ` set xs, IntvlIterator [])"
| "py_set (IntvlStr s) = Inr (ElChr ` set s, IntvlStr s)"

text \<open>The dictionary \<^verbatim>\<open>labels\<close>, in the order the source writes it.\<close>

definition labels :: "(string \<times> int list) list" where
  "labels =
     [(''jfm'', [1, 2, 3]), (''fma'', [2, 3, 4]), (''mam'', [3, 4, 5]),
      (''amj'', [4, 5, 6]), (''mjj'', [5, 6, 7]), (''jja'', [6, 7, 8]),
      (''jas'', [7, 8, 9]), (''aso'', [8, 9, 10]), (''son'', [9, 10, 11]),
      (''ond'', [10, 11, 12]), (''ndj'', [11, 12, 1]), (''djf'', [1, 2, 12]),
      (''jjas'', [6, 7, 8, 9]), (''djfm'', [12, 1, 2, 3]),
      (''ann'', py_range 1 13)]"

text \<open>
  The \<^verbatim>\<open>for\<close> loop over \<^verbatim>\<open>labels.items()\<close>: the first entry whose code equals the
  interval, or whose months are the same set as the interval's elements, is taken.
  \<open>None\<close> means that the loop ended with \<^verbatim>\<open>label\<close> and \<^verbatim>\<open>value\<close> unassigned. Each
  turn of the loop sees the interval as \<^verbatim>\<open>set(intvl)\<close> of the turn before left it.
\<close>

fun find_label :: "intvl \<Rightarrow> (string \<times> int list) list \<Rightarrow> pyexc + (string \<times> int list) option" where
  "find_label intvl [] = Inr None"
| "find_label intvl ((lbl, vals) # rest) =
     (case eq_label intvl lbl of
        Inl e \<Rightarrow> Inl e
      | Inr True \<Rightarrow> Inr (Some (lbl, vals))
      | Inr False \<Rightarrow>
          (case py_set intvl of
             Inl e \<Rightarrow> Inl e
           | Inr (s, intvl') \<Rightarrow>
               if s = ElInt ` set vals then Inr (Some (lbl, vals))
               else find_label intvl' rest))"

datatype time_label_result = LabelValue string "int list" | LabelOnly string

definition time_label :: "intvl \<Rightarrow> bool \<Rightarrow> pyexc + time_label_result" where
  "time_label intvl return_val =
     (let found =
        (case intvl of
           IntvlSeq [x] \<Rightarrow> Inr (Some (format_02 x, [x]))
         | IntvlArray [x] \<Rightarrow> Inr (Some (format_02 x, [x]))
         | IntvlInt n \<Rightarrow>
             if n \<in> set (py_range 1 13) then Inr (Some (format_02 n, [n]))
             else find_label intvl labels
         | _ \<Rightarrow> find_label intvl labels)
      in case found of
           Inl e \<Rightarrow> Inl e
         | Inr None \<Rightarrow> Inl UnboundLocalError
         | Inr (Some (label, val)) \<Rightarrow>
             Inr (if return_val then LabelValue label val else LabelOnly label))"

subsection \<open>\<^verbatim>\<open>_month_indices\<close>\<close>

text \<open>
  \<open>MonOther\<close> stands for an argument that is neither an integer nor a string, which the
  assertion of the source rejects. The result is a list (a \<^verbatim>\<open>range\<close> or a one-element
  list) or, with \<^verbatim>\<open>iterable=False\<close>, the integer itself.
\<close>

datatype months_arg = MonInt int | MonStr string | MonOther

datatype months_result = MonthList "int list" | MonthInt int

definition first_letter :: string where
  "first_letter = ''jfmamjjasond'' @ ''jfmamjjasond''"

definition month_indices :: "months_arg \<Rightarrow> bool \<Rightarrow> pyexc + months_result" where
  "month_indices months iterable =
     (case months of
        MonOther \<Rightarrow> Inl AssertionError
      | MonInt m \<Rightarrow> Inr (if iterable then MonthList [m] else MonthInt m)
      | MonStr s \<Rightarrow>
          if lower s = ''ann'' then Inr (MonthList (py_range 1 13))
          else
            (let st_ind = find first_letter (lower s) + 1
             in Inr (MonthList (py_range st_ind (st_ind + int (length s))))))"

section \<open>Selecting from a time axis: \<^verbatim>\<open>_get_time\<close>\<close>

text \<open>
  \<^verbatim>\<open>netCDF4.num2date\<close> is a library function; it is a parameter here, a decoder from
  the raw time values, the units and the calendar name to calendar dates, which may
  raise. Only the year and the month of a date are read.
\<close>

record date =
  year :: int
  month :: int

datatype indices_arg = IdxBool bool | IdxStr string

fun truthy :: "indices_arg \<Rightarrow> bool" where
  "truthy (IdxBool b) = b"
| "truthy (IdxStr s) = (s \<noteq> [])"

datatype 'a selection = Inds "nat list" | IndsValues "nat list" "'a list" | Values "'a list"

text \<open>The list comprehension over \<^verbatim>\<open>enumerate(dates)\<close>.\<close>

definition select_inds :: "date list \<Rightarrow> int \<Rightarrow> int \<Rightarrow> int list \<Rightarrow> nat list" where
  "select_inds dates start_yr end_yr months =
     map fst
       (filter (\<lambda>(i, d). month d \<in> set months \<and> year d \<in> set (py_range start_yr (end_yr + 1)))
          (enumerate 0 dates))"

text \<open>
  \<^verbatim>\<open>time[inds]\<close> with \<^verbatim>\<open>time\<close> a netCDF4 variable, as the docstring has it, and
  \<^verbatim>\<open>inds\<close> a list of positions: the values at the listed positions. The variable takes
  a list as an index only if the list makes an array of integers. The empty list makes
  an array of floats, so it is refused with \<^verbatim>\<open>IndexError\<close>, and so is a position past
  the end of the axis.
\<close>

definition index_list :: "'a list \<Rightarrow> nat list \<Rightarrow> pyexc + 'a list" where
  "index_list time inds =
     (if inds = [] then Inl IndexError
      else if \<forall>i \<in> set inds. i < length time then Inr (map (\<lambda>i. time ! i) inds)
      else Inl IndexError)"

definition get_time ::
  "('a list \<Rightarrow> string \<Rightarrow> string \<Rightarrow> pyexc + date list) \<Rightarrow> 'a list \<Rightarrow> string \<Rightarrow> string \<Rightarrow>
     int \<Rightarrow> int \<Rightarrow> int list \<Rightarrow> indices_arg \<Rightarrow> pyexc + 'a selection" where
  "get_time num2date time units calendar start_yr end_yr months indices =
     (case num2date time units (lower calendar) of
        Inl e \<Rightarrow> Inl e
      | Inr dates \<Rightarrow>
          (let inds = select_inds dates start_yr end_yr months
           in if indices = IdxStr ''only'' then Inr (Inds inds)
              else (case index_list time inds of
                      Inl e \<Rightarrow> Inl e
                    | Inr vals \<Rightarrow>
                        if truthy indices then Inr (IndsValues inds vals)
                        else Inr (Values vals))))"

text \<open>
  The predicate of the claims on position \<open>i\<close> of the decoded axis, in their words: the
  year is between the start and the end year, both included, and the month is one of
  the months asked for. \<open>select_inds\<close> above is what the source computes; this is what
  it is compared with.
\<close>

definition selected :: "date list \<Rightarrow> int \<Rightarrow> int \<Rightarrow> int list \<Rightarrow> nat \<Rightarrow> bool" where
  "selected dates start_yr end_yr months i =
     (start_yr \<le> year (dates ! i) \<and> year (dates ! i) \<le> end_yr \<and>
      month (dates ! i) \<in> set months)"

section \<open>Archive file names: \<^verbatim>\<open>nc_name_gfdl\<close>\<close>

fun join :: "string \<Rightarrow> string list \<Rightarrow> string" where
  "join sep [] = []"
| "join sep [x] = x"
| "join sep (x # y # ys) = x @ sep @ join sep (y # ys)"

text \<open>
  The first two statements of the function: the starting year of the file that holds
  \<open>data_yr\<close>. Python's \<^verbatim>\<open>%\<close> on integers takes the sign of the divisor, as \<open>mod\<close> on
  \<^typ>\<open>int\<close> does; a zero divisor raises, which \<open>nc_name_gfdl\<close> below checks first.
\<close>

definition nc_yr :: "int \<Rightarrow> int \<Rightarrow> int \<Rightarrow> int" where
  "nc_yr data_yr nc_start_yr nc_dur =
     (let extra_yrs = (data_yr - nc_start_yr) mod nc_dur in data_yr - extra_yrs)"

text \<open>
  The label of the time-averaged branch. For \<^verbatim>\<open>'seasonal'\<close> and \<^verbatim>\<open>'seas'\<close> the source
  reads \<^verbatim>\<open>label.upper()\<close> before any assignment to \<^verbatim>\<open>label\<close>; for any other interval
  type \<^verbatim>\<open>label\<close> is still unassigned when the file name is built. Both raise
  \<^verbatim>\<open>UnboundLocalError\<close>.
\<close>

definition av_label :: "string \<Rightarrow> intvl \<Rightarrow> pyexc + string" where
  "av_label intvl_type intvl =
     (if intvl_type \<in> set [''annual'', ''ann''] then Inr ''ann''
      else if intvl_type \<in> set [''seasonal'', ''seas''] then Inl UnboundLocalError
      else if intvl_type \<in> set [''monthly'', ''mon''] then
        (case time_label intvl True of
           Inl e \<Rightarrow> Inl e
         | Inr (LabelValue label val) \<Rightarrow> Inr label
         | Inr (LabelOnly label) \<Rightarrow> Inl TypeError)
      else Inl UnboundLocalError)"

definition nc_name_gfdl ::
  "string \<Rightarrow> string \<Rightarrow> string \<Rightarrow> string \<Rightarrow> int \<Rightarrow> intvl \<Rightarrow> int \<Rightarrow> int \<Rightarrow> pyexc + string" where
  "nc_name_gfdl name domain data_type intvl_type data_yr intvl nc_start_yr nc_dur =
     (if nc_dur = 0 then Inl ZeroDivisionError
      else
        (let y = nc_yr data_yr nc_start_yr nc_dur in
         if data_type \<in> set [''ts'', ''inst''] then
           (if intvl_type = ''annual'' then
              (if nc_dur = 1 then Inr (join ''.'' [domain, format_04d y, name, ''nc''])
               else Inr (domain @ ''.'' @ format_04d y @ ''-'' @ format_04d (y + nc_dur - 1)
                         @ ''.'' @ name @ ''.nc''))
            else if intvl_type = ''monthly'' then
              Inr (domain @ ''.'' @ format_04d y @ ''01-'' @ format_04d (y + nc_dur - 1)
                   @ ''12.'' @ name @ ''.nc'')
            else if intvl_type = ''daily'' then
              Inr (domain @ ''.'' @ format_04d y @ ''0101-'' @ format_04d (y + nc_dur - 1)
                   @ ''1231.'' @ name @ ''.nc'')
            else if str_in ''hr'' intvl_type then
              Inr (join ''.''
                     [domain,
                      format_04d y @ ''010100-'' @ format_04d (y + nc_dur - 1) @ ''123123'',
                      name, ''nc''])
            else Inl UnboundLocalError)
         else if data_type = ''av'' then
           (case av_label intvl_type intvl of
              Inl e \<Rightarrow> Inl e
            | Inr label \<Rightarrow>
                if nc_dur = 1 then Inr (domain @ ''.'' @ format_04d y @ ''.'' @ label @ ''.nc'')
                else Inr (domain @ ''.'' @ format_04d y @ ''-'' @ format_04d (y + nc_dur - 1)
                          @ ''.'' @ label @ ''.nc''))
         else if data_type = ''av_ts'' then
           Inr (domain @ ''.'' @ format_04d y @ ''-'' @ format_04d (y + nc_dur - 1)
                @ ''.01-12.nc'')
         else Inl UnboundLocalError))"

text \<open>
  The pairs of data type and interval type for which some branch of \<open>nc_name_gfdl\<close>
  assigns \<^verbatim>\<open>gfdl_file\<close> (and, in the time-averaged branch, \<^verbatim>\<open>label\<close> first).
\<close>

definition naming_branch :: "string \<Rightarrow> string \<Rightarrow> bool" where
  "naming_branch data_type intvl_type =
     (data_type \<in> set [''ts'', ''inst''] \<and>
        (intvl_type \<in> set [''annual'', ''monthly'', ''daily''] \<or> str_in ''hr'' intvl_type) \<or>
      data_type = ''av'' \<and> intvl_type \<in> set [''annual'', ''ann'', ''monthly'', ''mon''] \<or>
      data_type = ''av_ts'')"

section \<open>Properties of the formatting helpers\<close>

lemma py_range_iff: "m \<in> set (py_range a b) \<longleftrightarrow> a \<le> m \<and> m < b"
  by (auto simp add: py_range_def)

lemma py_range_1_13: "py_range 1 13 = [1, 2, 3, 4, 5, 6, 7, 8, 9, 10, 11, 12]"
  by code_simp

lemma format_04d_examples:
  "format_04d 21 = ''0021''" "format_04d 25 = ''0025''" "format_04d 23 = ''0023''"
  "format_04d 1981 = ''1981''" "format_04d 2010 = ''2010''"
  by code_simp+

lemma format_02_examples:
  "format_02 7 = ''07''" "format_02 12 = ''12''" "format_02 13 = ''13''"
  by code_simp+

lemma format_02_months:
  "map format_02 [1, 2, 3, 4, 5, 6, 7, 8, 9, 10, 11, 12] =
     [''01'', ''02'', ''03'', ''04'', ''05'', ''06'',
      ''07'', ''08'', ''09'', ''10'', ''11'', ''12'']"
  by code_simp

lemma str_int_examples: "str_int 1 = ''1''" "str_int 2 = ''2''" "str_int 4 = ''4''"
  by code_simp+

section \<open>The file name of an annual time series\<close>

text \<open>
  Claim C1. For \<^verbatim>\<open>data_type\<close> \<^verbatim>\<open>'ts'\<close> or \<^verbatim>\<open>'inst'\<close> and \<^verbatim>\<open>intvl_type == 'annual'\<close>,
  \<open>nc_name_gfdl\<close> with a duration above one year returns the domain, a dot, the
  \<^verbatim>\<open>{:04d}\<close> form of the file's first year, a hyphen, the \<^verbatim>\<open>{:04d}\<close> form of its last
  year (first year plus duration minus one), a dot, the variable name and \<^verbatim>\<open>.nc\<close>.
  For the domain \<^verbatim>\<open>atmos\<close>, a duration of 5, an archive starting in year 1 and the data
  year 21 that is \<^verbatim>\<open>atmos.0021-0025.<var>.nc\<close>. With a duration of one year the range
  is the single year.
\<close>

theorem nc_name_gfdl_annual_ts:
  assumes "data_type = ''ts'' \<or> data_type = ''inst''"
  shows "(1 < nc_dur \<longrightarrow>
           nc_name_gfdl name domain data_type ''annual'' data_yr intvl nc_start_yr nc_dur =
             Inr (domain @ ''.'' @ format_04d (nc_yr data_yr nc_start_yr nc_dur) @ ''-'' @
                  format_04d (nc_yr data_yr nc_start_yr nc_dur + nc_dur - 1) @
                  ''.'' @ name @ ''.nc'')) \<and>
         nc_name_gfdl name ''atmos'' data_type ''annual'' 21 intvl 1 5 =
           Inr (''atmos.0021-0025.'' @ name @ ''.nc'') \<and>
         nc_name_gfdl name domain data_type ''annual'' data_yr intvl nc_start_yr 1 =
           Inr (domain @ ''.'' @ format_04d data_yr @ ''.'' @ name @ ''.nc'')"
  using assms by (auto simp add: nc_name_gfdl_def nc_yr_def Let_def format_04d_examples)

theorem nc_name_gfdl_annual_ts_witness:
  "nc_name_gfdl ''temp'' ''atmos'' ''ts'' ''annual'' 23 (IntvlInt 1) 1 5 =
     Inr ''atmos.0021-0025.temp.nc'' \<and>
   nc_name_gfdl ''temp'' ''atmos'' ''ts'' ''annual'' 21 (IntvlInt 1) 1 5 =
     Inr ''atmos.0021-0025.temp.nc'' \<and>
   nc_name_gfdl ''temp'' ''atmos'' ''ts'' ''annual'' 23 (IntvlInt 1) 1 1 =
     Inr ''atmos.0023.temp.nc''"
proof -
  have dt: "''ts'' = ''ts'' \<or> ''ts'' = ''inst''" by simp
  have dur: "(1::int) < 5" by simp
  have y: "nc_yr 23 1 5 = 21" by (simp add: nc_yr_def)
  from nc_name_gfdl_annual_ts [OF dt, of 5 "''temp''" "''atmos''" 23 "IntvlInt 1" 1] dur y
  show ?thesis by (simp add: format_04d_examples)
qed

section \<open>The first year of the file holding a given year\<close>

text \<open>
  Claim C2, as amended. For a positive duration the first year of the file, \<open>nc_yr\<close>,
  is at most the data year, less than one duration before it, and a whole number of
  durations away from the first year of the archive. It is at or after the first year
  of the archive exactly when the data year is; for a data year before the archive's
  first year it lies before the archive's first year too.
\<close>

theorem nc_yr_bucket:
  assumes "0 < nc_dur"
  shows "nc_yr data_yr nc_start_yr nc_dur \<le> data_yr \<and>
         data_yr - nc_yr data_yr nc_start_yr nc_dur < nc_dur \<and>
         (nc_yr data_yr nc_start_yr nc_dur - nc_start_yr) mod nc_dur = 0 \<and>
         (nc_start_yr \<le> nc_yr data_yr nc_start_yr nc_dur \<longleftrightarrow> nc_start_yr \<le> data_yr)"
proof -
  let ?e = "(data_yr - nc_start_yr) mod nc_dur"
  have e0: "0 \<le> ?e" and e1: "?e < nc_dur" using assms by simp_all
  have y: "nc_yr data_yr nc_start_yr nc_dur = data_yr - ?e" by (simp add: nc_yr_def)
  have le: "nc_yr data_yr nc_start_yr nc_dur \<le> data_yr" using e0 y by simp
  have near: "data_yr - nc_yr data_yr nc_start_yr nc_dur < nc_dur" using e1 y by simp
  have "data_yr - ?e - nc_start_yr = (data_yr - nc_start_yr) - ?e" by simp
  then have aligned: "(nc_yr data_yr nc_start_yr nc_dur - nc_start_yr) mod nc_dur = 0"
    unfolding y by (simp add: minus_mod_eq_mult_div)
  have after: "nc_start_yr \<le> nc_yr data_yr nc_start_yr nc_dur \<longleftrightarrow> nc_start_yr \<le> data_yr"
  proof
    assume "nc_start_yr \<le> nc_yr data_yr nc_start_yr nc_dur"
    then show "nc_start_yr \<le> data_yr" using e0 y by simp
  next
    assume "nc_start_yr \<le> data_yr"
    then have "0 \<le> data_yr - nc_start_yr" by simp
    then have "?e \<le> data_yr - nc_start_yr"
      using assms by (simp add: zmod_le_nonneg_dividend)
    then show "nc_start_yr \<le> nc_yr data_yr nc_start_yr nc_dur" using y by simp
  qed
  from le near aligned after show ?thesis by blast
qed

theorem nc_yr_bucket_witness:
  "nc_yr 23 1 5 = 21 \<and> nc_yr 23 1 5 \<le> 23 \<and> 23 - nc_yr 23 1 5 < 5 \<and>
   (nc_yr 23 1 5 - 1) mod 5 = 0 \<and> 1 \<le> nc_yr 23 1 5"
proof -
  have "(0::int) < 5" by simp
  from nc_yr_bucket [OF this, of 23 1] show ?thesis by (simp add: nc_yr_def)
qed

text \<open>
  The claim as first stated also puts \<open>nc_yr\<close> at or after the archive's first year for
  every data year. The data year 0 with an archive starting in year 1 and five-year
  files gives the file year -4.
\<close>

theorem nc_yr_before_archive_start:
  "(0::int) < 5 \<and> nc_yr 0 1 5 = - 4 \<and> \<not> (1 \<le> nc_yr 0 1 5)"
  by (simp add: nc_yr_def)

section \<open>Year labels\<close>

text \<open>
  Claim C4, as amended. For every pair of years \<open>yr_label\<close> returns a label and never
  raises: the \<^verbatim>\<open>{:04d}\<close> form of the year when the two are equal, and otherwise the
  two \<^verbatim>\<open>{:04d}\<close> forms joined by a hyphen, in the order given, whether the second year
  is after or before the first. So the label of (1981, 1981) is \<^verbatim>\<open>1981\<close> and that of
  (1981, 2010) is \<^verbatim>\<open>1981-2010\<close>.
\<close>

theorem yr_label_pair:
  "yr_label (Some (y0, y1)) =
     Inr (if y0 = y1 then format_04d y0 else format_04d y0 @ ''-'' @ format_04d y1) \<and>
   yr_label (Some (1981, 1981)) = Inr ''1981'' \<and>
   yr_label (Some (1981, 2010)) = Inr ''1981-2010''"
  by (simp add: yr_label_def format_04d_examples)

text \<open>A range whose end is before its start is labelled like any other.\<close>

theorem yr_label_reversed_range:
  "yr_label (Some (2010, 1981)) = Inr ''2010-1981''"
  by (simp add: yr_label_def format_04d_examples)

section \<open>Ensemble member labels\<close>

text \<open>
  What \<open>ens_label\<close> returns for \<^verbatim>\<open>None\<close>, \<^verbatim>\<open>False\<close>, \<^verbatim>\<open>'avg'\<close> and every integer
  other than zero.
\<close>

lemma ens_label_cases:
  "ens_label MemNone = Inr ''''"
  "ens_label (MemBool False) = Inr ''''"
  "ens_label (MemStr ''avg'') = Inr ''ens_mean''"
  "k \<noteq> 0 \<Longrightarrow> ens_label (MemInt k) = Inr (''mem'' @ str_int (k + 1))"
  by (simp_all add: ens_label_def in_None_False_def)

lemma ens_label_member_3: "ens_label (MemInt 3) = Inr ''mem4''"
  by (simp add: ens_label_cases str_int_examples)

text \<open>
  Claim C5. The member 0, the first of a zero-based numbering, is equal to \<^verbatim>\<open>False\<close> in
  Python, so the test \<^verbatim>\<open>ens_mem in (None, False)\<close> takes it and the label is empty,
  not \<^verbatim>\<open>mem1\<close>.
\<close>

theorem ens_label_zero:
  "ens_label (MemInt 0) = Inr '''' \<and> ens_label (MemInt 0) \<noteq> Inr ''mem1''"
  by (simp add: ens_label_def in_None_False_def)

section \<open>Resolving a time interval\<close>

subsection \<open>The loop over the table\<close>

lemma find_label_int: "tbl \<noteq> [] \<Longrightarrow> find_label (IntvlInt n) tbl = Inl TypeError"
  by (cases tbl) auto

text \<open>
  A string never matches an entry by its set of characters, because the months of an
  entry are integers and there is at least one: it matches by its code only.
\<close>

lemma find_label_str:
  "\<forall>e \<in> set tbl. snd e \<noteq> [] \<Longrightarrow>
     find_label (IntvlStr s) tbl = Inr (map_option (Pair s) (map_of tbl s))"
proof (induction tbl)
  case Nil
  then show ?case by simp
next
  case (Cons e tbl)
  obtain l v where e: "e = (l, v)" by (cases e)
  with Cons.prems have "v \<noteq> []" by simp
  then obtain x where "x \<in> set v" by (cases v) auto
  then have "ElInt x \<in> ElInt ` set v" by simp
  moreover have "ElInt x \<notin> ElChr ` set s" by auto
  ultimately have ne: "ElChr ` set s \<noteq> ElInt ` set v" by metis
  from Cons have IH: "find_label (IntvlStr s) tbl = Inr (map_option (Pair s) (map_of tbl s))"
    by simp
  show ?case
  proof (cases "s = l")
    case True
    with e show ?thesis by simp
  next
    case False
    then have "l \<noteq> s" by simp
    with False e ne IH show ?thesis by simp
  qed
qed

text \<open>
  A list, a tuple and any other container that can be iterated again match the first
  entry with the same set of months.
\<close>

lemma find_label_seq:
  "find_label (IntvlSeq xs) tbl = Inr (List.find (\<lambda>e. set xs = set (snd e)) tbl)"
proof (induction tbl)
  case Nil
  then show ?case by simp
next
  case (Cons e tbl)
  obtain l v where e: "e = (l, v)" by (cases e)
  have "ElInt ` set xs = ElInt ` set v \<longleftrightarrow> set xs = set v"
    by (rule inj_image_eq_iff) (simp add: inj_on_def)
  with Cons e show ?case by simp
qed

lemma find_label_iterable:
  "find_label (IntvlIterable xs) tbl = Inr (List.find (\<lambda>e. set xs = set (snd e)) tbl)"
proof (induction tbl)
  case Nil
  then show ?case by simp
next
  case (Cons e tbl)
  obtain l v where e: "e = (l, v)" by (cases e)
  have "ElInt ` set xs = ElInt ` set v \<longleftrightarrow> set xs = set v"
    by (rule inj_image_eq_iff) (simp add: inj_on_def)
  with Cons e show ?case by simp
qed

text \<open>
  An array that has not exactly one element stops the loop at its first turn, with the
  \<^verbatim>\<open>ValueError\<close> of the comparison.
\<close>

lemma find_label_array:
  "tbl \<noteq> [] \<Longrightarrow> length xs \<noteq> 1 \<Longrightarrow> find_label (IntvlArray xs) tbl = Inl ValueError"
  by (cases tbl) auto

text \<open>
  An iterator is run to its end by the first turn of the loop, so it can only match the
  first entry: every later turn sees the empty set, and no entry has no months.
\<close>

lemma find_label_exhausted:
  "\<forall>e \<in> set tbl. snd e \<noteq> [] \<Longrightarrow> find_label (IntvlIterator []) tbl = Inr None"
proof (induction tbl)
  case Nil
  then show ?case by simp
next
  case (Cons e tbl)
  obtain l v where e: "e = (l, v)" by (cases e)
  with Cons.prems have "v \<noteq> []" by simp
  then have "{} \<noteq> ElInt ` set v" by simp
  with Cons e show ?case by simp
qed

lemma find_label_iterator:
  assumes "\<forall>e \<in> set tbl. snd e \<noteq> []"
  shows "find_label (IntvlIterator xs) ((l, v) # tbl) =
           Inr (if set xs = set v then Some (l, v) else None)"
proof -
  have "ElInt ` set xs = ElInt ` set v \<longleftrightarrow> set xs = set v"
    by (rule inj_image_eq_iff) (simp add: inj_on_def)
  with find_label_exhausted [OF assms] show ?thesis by simp
qed

lemma find_by_key:
  "e \<in> set tbl \<Longrightarrow> distinct (map f tbl) \<Longrightarrow> List.find (\<lambda>e'. f e = f e') tbl = Some e"
  by (induction tbl) (auto simp add: rev_image_eqI)

subsection \<open>The table\<close>

lemma labels_nonempty: "\<forall>e \<in> set labels. snd e \<noteq> []"
  by (simp add: labels_def py_range_1_13)

lemma labels_codes_distinct: "distinct (map fst labels)"
  by (simp add: labels_def)

text \<open>
  No two codes have the same set of months, so the order in which the dictionary is
  walked does not change which entry a sequence of months matches.
\<close>

lemma labels_months_distinct: "distinct (map (\<lambda>e. set (snd e)) labels)"
  by (simp add: labels_def py_range_1_13 set_eq_subset)

lemma labels_not_singleton: "e \<in> set labels \<Longrightarrow> set (snd e) \<noteq> {x}"
  by (auto simp add: labels_def py_range_1_13)

lemma labels_lower: "\<forall>e \<in> set labels. lower (fst e) = fst e"
  by code_simp

subsection \<open>\<open>time_label\<close> by the kind of its argument\<close>

lemma time_label_singleton:
  "time_label (IntvlSeq [x]) rv =
     Inr (if rv then LabelValue (format_02 x) [x] else LabelOnly (format_02 x))"
  by (simp add: time_label_def)

lemma time_label_array_singleton:
  "time_label (IntvlArray [x]) rv =
     Inr (if rv then LabelValue (format_02 x) [x] else LabelOnly (format_02 x))"
  by (simp add: time_label_def)

lemma time_label_month:
  "1 \<le> m \<Longrightarrow> m \<le> 12 \<Longrightarrow>
     time_label (IntvlInt m) rv =
       Inr (if rv then LabelValue (format_02 m) [m] else LabelOnly (format_02 m))"
  by (simp add: time_label_def py_range_iff)

lemma time_label_int_other:
  "\<not> (1 \<le> m \<and> m \<le> 12) \<Longrightarrow> time_label (IntvlInt m) rv = Inl TypeError"
  by (auto simp add: time_label_def py_range_iff find_label_int labels_def)

lemma time_label_seq:
  "length xs \<noteq> 1 \<Longrightarrow>
     time_label (IntvlSeq xs) rv =
       (case List.find (\<lambda>e. set xs = set (snd e)) labels of
          None \<Rightarrow> Inl UnboundLocalError
        | Some (label, val) \<Rightarrow> Inr (if rv then LabelValue label val else LabelOnly label))"
  by (cases xs rule: list.exhaust; cases "tl xs")
     (auto simp add: time_label_def find_label_seq split: option.splits)

lemma time_label_iterable:
  "time_label (IntvlIterable xs) rv =
     (case List.find (\<lambda>e. set xs = set (snd e)) labels of
        None \<Rightarrow> Inl UnboundLocalError
      | Some (label, val) \<Rightarrow> Inr (if rv then LabelValue label val else LabelOnly label))"
  by (simp add: time_label_def find_label_iterable split: option.splits)

lemma time_label_array_other:
  assumes "length xs \<noteq> 1"
  shows "time_label (IntvlArray xs) rv = Inl ValueError"
proof -
  have tbl: "labels \<noteq> []" by (simp add: labels_def)
  from assms have "find_label (IntvlArray xs) labels = Inl ValueError"
    by (rule find_label_array [OF tbl])
  moreover from assms have "(case IntvlArray xs of
        IntvlSeq [x] \<Rightarrow> Inr (Some (format_02 x, [x]))
      | IntvlArray [x] \<Rightarrow> Inr (Some (format_02 x, [x]))
      | IntvlInt n \<Rightarrow>
          if n \<in> set (py_range 1 13) then Inr (Some (format_02 n, [n]))
          else find_label (IntvlArray xs) labels
      | _ \<Rightarrow> find_label (IntvlArray xs) labels) = find_label (IntvlArray xs) labels"
    by (cases xs rule: list.exhaust; cases "tl xs") auto
  ultimately show ?thesis by (simp add: time_label_def)
qed

lemma time_label_iterator:
  "time_label (IntvlIterator xs) rv =
     (if set xs = {1, 2, 3}
      then Inr (if rv then LabelValue ''jfm'' [1, 2, 3] else LabelOnly ''jfm'')
      else Inl UnboundLocalError)"
proof -
  have "\<exists>tbl. labels = (''jfm'', [1, 2, 3]) # tbl \<and> (\<forall>e \<in> set tbl. snd e \<noteq> [])"
    by (simp add: labels_def py_range_1_13)
  then obtain tbl where l: "labels = (''jfm'', [1, 2, 3]) # tbl"
    and ne: "\<forall>e \<in> set tbl. snd e \<noteq> []" by blast
  have "find_label (IntvlIterator xs) labels =
      Inr (if set xs = set [1, 2, 3] then Some (''jfm'', [1, 2, 3]) else None)"
    unfolding l by (rule find_label_iterator [OF ne])
  then show ?thesis by (simp add: time_label_def insert_commute)
qed

lemma time_label_str:
  "time_label (IntvlStr s) rv =
     (case map_of labels s of
        None \<Rightarrow> Inl UnboundLocalError
      | Some val \<Rightarrow> Inr (if rv then LabelValue s val else LabelOnly s))"
  by (simp add: time_label_def find_label_str [OF labels_nonempty] split: option.splits)

lemma time_label_code:
  assumes "(c, vals) \<in> set labels"
  shows "time_label (IntvlStr c) True = Inr (LabelValue c vals)"
proof -
  have "map_of labels c = Some vals"
    using assms labels_codes_distinct by (rule_tac map_of_is_SomeI)
  then show ?thesis by (simp add: time_label_str)
qed

lemma time_label_not_code:
  assumes "s \<notin> fst ` set labels"
  shows "time_label (IntvlStr s) rv = Inl UnboundLocalError"
proof -
  from assms have "map_of labels s = None" by (simp add: map_of_eq_None_iff)
  then show ?thesis by (simp add: time_label_str)
qed

subsection \<open>Well-formed intervals\<close>

lemma labels_jfm:
  assumes "(c, vals) \<in> set labels"
  shows "set vals = {1, 2, 3} \<longleftrightarrow> c = ''jfm''"
proof -
  have jfm: "(''jfm'', [1, 2, 3]) \<in> set labels" by (simp add: labels_def)
  show ?thesis
  proof
    assume "set vals = {1, 2, 3}"
    then have "set (snd (c, vals)) = set (snd (''jfm'', [1, 2, 3 :: int]))"
      by (simp add: insert_commute)
    moreover from labels_months_distinct have "inj_on (\<lambda>e. set (snd e)) (set labels)"
      by (simp only: distinct_map)
    ultimately have "(c, vals) = (''jfm'', [1, 2, 3])"
      using assms jfm by (rule_tac inj_onD)
    then show "c = ''jfm''" by (rule Pair_inject)
  next
    assume "c = ''jfm''"
    then have "fst (c, vals) = fst (''jfm'', [1, 2, 3 :: int])" by simp
    moreover from labels_codes_distinct have "inj_on fst (set labels)"
      by (simp only: distinct_map)
    ultimately have "(c, vals) = (''jfm'', [1, 2, 3])"
      using assms jfm by (rule_tac inj_onD)
    then have "vals = [1, 2, 3]" by (rule Pair_inject)
    then show "set vals = {1, 2, 3}" by (simp add: insert_commute)
  qed
qed

lemma labels_find_months:
  assumes "(c, vals) \<in> set labels" and "set xs = set vals"
  shows "List.find (\<lambda>e. set xs = set (snd e)) labels = Some (c, vals)"
  using find_by_key [OF assms(1) labels_months_distinct] assms(2) by simp

lemma labels_months_length:
  assumes "(c, vals) \<in> set labels" and "set xs = set vals"
  shows "length xs \<noteq> 1"
proof
  assume "length xs = 1"
  then obtain x where "xs = [x]" by (cases xs) auto
  with assms(2) have "set (snd (c, vals)) = {x}" by simp
  with labels_not_singleton [OF assms(1)] show False by blast
qed

lemma labels_find_singleton: "List.find (\<lambda>e. set [m] = set (snd e)) labels = None"
proof -
  have "\<not> set [m] = set (snd e)" if "e \<in> set labels" for e
    using labels_not_singleton [OF that, of m] by auto
  then show ?thesis unfolding find_None_iff by blast
qed

text \<open>
  Claim C3, as amended. For an integer \<open>m\<close> from 1 to 12, given as such or as the one
  element of a list, a tuple or an array, \<open>time_label\<close> returns the \<^verbatim>\<open>{:02}\<close> form of
  \<open>m\<close> (\<^verbatim>\<open>01\<close> to \<^verbatim>\<open>12\<close>, lemma \<open>format_02_months\<close>) and the months \<open>[m]\<close>; given as
  the one element of any other iterable it raises \<^verbatim>\<open>UnboundLocalError\<close>. For every
  entry of the table it returns the code and the months of the entry for the code
  itself, and for every list, tuple or other container that can be iterated again
  whose elements are, as a set, the months of the entry. An array with these elements
  raises \<^verbatim>\<open>ValueError\<close>, and an iterator with these elements resolves for the first
  entry of the table only, \<^verbatim>\<open>jfm\<close>, and raises \<^verbatim>\<open>UnboundLocalError\<close> for every other.
  For \<^verbatim>\<open>'ann'\<close> the function returns \<^verbatim>\<open>'ann'\<close> and the months 1 to 12.
\<close>

theorem time_label_resolves:
  "(\<forall>m. 1 \<le> m \<and> m \<le> 12 \<longrightarrow>
      time_label (IntvlInt m) True = Inr (LabelValue (format_02 m) [m]) \<and>
      time_label (IntvlSeq [m]) True = Inr (LabelValue (format_02 m) [m]) \<and>
      time_label (IntvlArray [m]) True = Inr (LabelValue (format_02 m) [m]) \<and>
      time_label (IntvlIterable [m]) True = Inl UnboundLocalError \<and>
      time_label (IntvlIterator [m]) True = Inl UnboundLocalError) \<and>
   (\<forall>c vals. (c, vals) \<in> set labels \<longrightarrow>
      time_label (IntvlStr c) True = Inr (LabelValue c vals) \<and>
      (\<forall>xs. set xs = set vals \<longrightarrow>
         time_label (IntvlSeq xs) True = Inr (LabelValue c vals) \<and>
         time_label (IntvlIterable xs) True = Inr (LabelValue c vals) \<and>
         time_label (IntvlArray xs) True = Inl ValueError \<and>
         time_label (IntvlIterator xs) True =
           (if c = ''jfm'' then Inr (LabelValue c vals) else Inl UnboundLocalError))) \<and>
   time_label (IntvlStr ''ann'') True =
     Inr (LabelValue ''ann'' [1, 2, 3, 4, 5, 6, 7, 8, 9, 10, 11, 12])"
proof -
  have months: "time_label (IntvlInt m) True = Inr (LabelValue (format_02 m) [m]) \<and>
      time_label (IntvlSeq [m]) True = Inr (LabelValue (format_02 m) [m]) \<and>
      time_label (IntvlArray [m]) True = Inr (LabelValue (format_02 m) [m]) \<and>
      time_label (IntvlIterable [m]) True = Inl UnboundLocalError \<and>
      time_label (IntvlIterator [m]) True = Inl UnboundLocalError"
    if m: "1 \<le> m \<and> m \<le> 12" for m
  proof (intro conjI)
    from m show "time_label (IntvlInt m) True = Inr (LabelValue (format_02 m) [m])"
      by (simp add: time_label_month)
    show "time_label (IntvlSeq [m]) True = Inr (LabelValue (format_02 m) [m])"
      by (simp add: time_label_singleton)
    show "time_label (IntvlArray [m]) True = Inr (LabelValue (format_02 m) [m])"
      by (simp add: time_label_array_singleton)
    show "time_label (IntvlIterable [m]) True = Inl UnboundLocalError"
      by (simp only: time_label_iterable labels_find_singleton option.case)
    have "set [m] \<noteq> {1, 2, 3}" by auto
    then show "time_label (IntvlIterator [m]) True = Inl UnboundLocalError"
      by (simp only: time_label_iterator if_False)
  qed
  have codes: "time_label (IntvlStr c) True = Inr (LabelValue c vals) \<and>
      (\<forall>xs. set xs = set vals \<longrightarrow>
         time_label (IntvlSeq xs) True = Inr (LabelValue c vals) \<and>
         time_label (IntvlIterable xs) True = Inr (LabelValue c vals) \<and>
         time_label (IntvlArray xs) True = Inl ValueError \<and>
         time_label (IntvlIterator xs) True =
           (if c = ''jfm'' then Inr (LabelValue c vals) else Inl UnboundLocalError))"
    if in_tbl: "(c, vals) \<in> set labels" for c vals
  proof (intro conjI allI impI)
    from in_tbl show "time_label (IntvlStr c) True = Inr (LabelValue c vals)"
      by (rule time_label_code)
  next
    fix xs :: "int list"
    assume same: "set xs = set vals"
    note found = labels_find_months [OF in_tbl same]
    note len = labels_months_length [OF in_tbl same]
    from len found show "time_label (IntvlSeq xs) True = Inr (LabelValue c vals)"
      by (simp add: time_label_seq)
    from found show "time_label (IntvlIterable xs) True = Inr (LabelValue c vals)"
      by (simp add: time_label_iterable)
    from len show "time_label (IntvlArray xs) True = Inl ValueError"
      by (rule time_label_array_other)
    show "time_label (IntvlIterator xs) True =
        (if c = ''jfm'' then Inr (LabelValue c vals) else Inl UnboundLocalError)"
    proof (cases "c = ''jfm''")
      case True
      with labels_jfm [OF in_tbl] have s: "set vals = {1, 2, 3}" by simp
      have "(''jfm'', [1, 2, 3]) \<in> set labels" by (simp add: labels_def)
      with in_tbl True labels_codes_distinct have "vals = [1, 2, 3]"
        by (metis eq_key_imp_eq_value)
      with True same s show ?thesis by (simp add: time_label_iterator)
    next
      case False
      with labels_jfm [OF in_tbl] have "set xs \<noteq> {1, 2, 3}" unfolding same by simp
      with False show ?thesis by (simp only: time_label_iterator if_False)
    qed
  qed
  have "(''ann'', [1, 2, 3, 4, 5, 6, 7, 8, 9, 10, 11, 12]) \<in> set labels"
    by (simp add: labels_def py_range_1_13)
  then have ann: "time_label (IntvlStr ''ann'') True =
      Inr (LabelValue ''ann'' [1, 2, 3, 4, 5, 6, 7, 8, 9, 10, 11, 12])"
    by (rule time_label_code)
  from months codes ann show ?thesis by blast
qed

theorem time_label_resolves_witness:
  "time_label (IntvlInt 7) True = Inr (LabelValue ''07'' [7]) \<and>
   time_label (IntvlSeq [7]) True = Inr (LabelValue ''07'' [7]) \<and>
   time_label (IntvlArray [7]) True = Inr (LabelValue ''07'' [7]) \<and>
   time_label (IntvlStr ''djf'') True = Inr (LabelValue ''djf'' [1, 2, 12]) \<and>
   time_label (IntvlSeq [12, 1, 2]) True = Inr (LabelValue ''djf'' [1, 2, 12]) \<and>
   time_label (IntvlSeq [2, 12, 2, 1]) True = Inr (LabelValue ''djf'' [1, 2, 12]) \<and>
   time_label (IntvlIterable [12, 1, 2]) True = Inr (LabelValue ''djf'' [1, 2, 12])"
proof -
  have tbl: "(''djf'', [1, 2, 12]) \<in> set labels" by (simp add: labels_def)
  have m: "(1::int) \<le> 7 \<and> (7::int) \<le> 12" by simp
  have s1: "set [12, 1, 2] = set [1, 2, 12::int]" by auto
  have s2: "set [2, 12, 2, 1] = set [1, 2, 12::int]" by auto
  from time_label_resolves m tbl s1 s2 show ?thesis
    by (simp add: format_02_examples del: set_simps)
qed

text \<open>
  The claim as first stated takes any iterable. A set with the one month 7, an iterator
  over the months of \<^verbatim>\<open>jja\<close> and an array of the months of \<^verbatim>\<open>jja\<close> all raise.
\<close>

theorem time_label_other_iterables:
  "time_label (IntvlIterable [7]) True = Inl UnboundLocalError \<and>
   time_label (IntvlIterator [6, 7, 8]) True = Inl UnboundLocalError \<and>
   time_label (IntvlArray [6, 7, 8]) True = Inl ValueError"
  by code_simp

subsection \<open>Intervals that resolve to nothing\<close>

text \<open>
  An interval that is not an integer from 1 to 12, not a list, tuple or array of one
  element, not a code of the table and not a collection with the months of an entry
  makes the function raise: \<^verbatim>\<open>TypeError\<close> for an integer (from \<^verbatim>\<open>set(intvl)\<close>),
  \<^verbatim>\<open>ValueError\<close> for an array (from the comparison with the first code) and
  \<^verbatim>\<open>UnboundLocalError\<close> otherwise (from the \<^verbatim>\<open>return\<close> statement, with \<^verbatim>\<open>label\<close> never
  assigned).
\<close>

lemma time_label_unresolved_raises:
  assumes "\<forall>m. intvl = IntvlInt m \<longrightarrow> \<not> (1 \<le> m \<and> m \<le> 12)"
    and "\<forall>x. intvl \<noteq> IntvlSeq [x] \<and> intvl \<noteq> IntvlArray [x]"
    and "\<forall>e \<in> set labels. intvl \<noteq> IntvlStr (fst e) \<and>
           (\<forall>xs. intvl = IntvlSeq xs \<or> intvl = IntvlIterable xs \<or> intvl = IntvlIterator xs \<longrightarrow>
                 set xs \<noteq> set (snd e))"
  shows "time_label intvl rv =
           Inl (case intvl of IntvlInt m \<Rightarrow> TypeError | IntvlArray xs \<Rightarrow> ValueError
                | _ \<Rightarrow> UnboundLocalError)"
proof (cases intvl)
  case (IntvlInt m)
  with assms(1) show ?thesis by (simp add: time_label_int_other)
next
  case (IntvlSeq xs)
  have "length xs \<noteq> 1"
  proof
    assume "length xs = 1"
    then obtain x where "xs = [x]" by (cases xs) auto
    with IntvlSeq assms(2) show False by simp
  qed
  moreover have "List.find (\<lambda>e. set xs = set (snd e)) labels = None"
    using assms(3) IntvlSeq by (auto simp add: find_None_iff)
  ultimately show ?thesis using IntvlSeq by (simp add: time_label_seq)
next
  case (IntvlArray xs)
  have "length xs \<noteq> 1"
  proof
    assume "length xs = 1"
    then obtain x where "xs = [x]" by (cases xs) auto
    with IntvlArray assms(2) show False by simp
  qed
  with IntvlArray show ?thesis by (simp add: time_label_array_other)
next
  case (IntvlIterable xs)
  have "List.find (\<lambda>e. set xs = set (snd e)) labels = None"
    using assms(3) IntvlIterable by (auto simp add: find_None_iff)
  with IntvlIterable show ?thesis by (simp add: time_label_iterable)
next
  case (IntvlIterator xs)
  have "(''jfm'', [1, 2, 3]) \<in> set labels" by (simp add: labels_def)
  with assms(3) IntvlIterator have "set xs \<noteq> set (snd (''jfm'', [1, 2, 3 :: int]))"
    by blast
  then have "set xs \<noteq> {1, 2, 3}" by (simp add: insert_commute)
  with IntvlIterator show ?thesis by (simp add: time_label_iterator)
next
  case (IntvlStr s)
  with assms(3) have "s \<notin> fst ` set labels" by auto
  with IntvlStr show ?thesis by (simp add: time_label_not_code)
qed

lemma time_label_unresolved_examples:
  "time_label (IntvlInt 0) True = Inl TypeError"
  "time_label (IntvlInt 13) True = Inl TypeError"
  "time_label (IntvlSeq []) True = Inl UnboundLocalError"
  "time_label (IntvlSeq [1, 2]) True = Inl UnboundLocalError"
  "time_label (IntvlStr ''annual'') True = Inl UnboundLocalError"
  "time_label (IntvlStr ''winter'') True = Inl UnboundLocalError"
  "time_label (IntvlArray []) True = Inl ValueError"
  "time_label (IntvlIterable [1, 2]) True = Inl UnboundLocalError"
  "time_label (IntvlIterator [3, 2, 1]) True = Inr (LabelValue ''jfm'' [1, 2, 3])"
  by code_simp+

text \<open>
  Claim C6. A one-element sequence is labelled whatever its element is: the test
  \<^verbatim>\<open>intvl in range(1,13)\<close> that the integer branch makes is not made on it. So the
  sequence \<^verbatim>\<open>[13]\<close> gets the label \<^verbatim>\<open>13\<close>, although 13 is no month and the integer 13
  itself is refused.
\<close>

theorem time_label_singleton_unchecked:
  "time_label (IntvlSeq [13]) True = Inr (LabelValue ''13'' [13]) \<and>
   time_label (IntvlInt 13) True = Inl TypeError"
  by (simp add: time_label_singleton time_label_int_other format_02_examples)

subsection \<open>Upper-case letters\<close>

text \<open>
  Claim C8, as amended. \<open>time_label\<close> compares a string with the codes of the table as
  it is, with no change of case. A string that differs from a code only by the case of
  some letters raises \<^verbatim>\<open>UnboundLocalError\<close>, while its lower-case form resolves to the
  code and its months.
\<close>

theorem time_label_case_sensitive:
  assumes "(c, vals) \<in> set labels" and "lower s = c" and "s \<noteq> c"
  shows "time_label (IntvlStr s) rv = Inl UnboundLocalError \<and>
         time_label (IntvlStr (lower s)) True = Inr (LabelValue c vals)"
proof -
  have "s \<notin> fst ` set labels"
  proof
    assume "s \<in> fst ` set labels"
    then obtain e where "e \<in> set labels" and "s = fst e" by auto
    with labels_lower have "lower s = s" by auto
    with assms(2,3) show False by simp
  qed
  then have "time_label (IntvlStr s) rv = Inl UnboundLocalError"
    by (rule time_label_not_code)
  moreover have "time_label (IntvlStr (lower s)) True = Inr (LabelValue c vals)"
    using time_label_code [OF assms(1)] assms(2) by simp
  ultimately show ?thesis by simp
qed

lemma lower_examples: "lower ''JJA'' = ''jja''" "lower ''Ann'' = ''ann''"
  by code_simp+

theorem time_label_case_sensitive_witness:
  "time_label (IntvlStr ''JJA'') True = Inl UnboundLocalError \<and>
   time_label (IntvlStr ''jja'') True = Inr (LabelValue ''jja'' [6, 7, 8])"
proof -
  have tbl: "(''jja'', [6, 7, 8]) \<in> set labels" by (simp add: labels_def)
  have ne: "''JJA'' \<noteq> ''jja''" by simp
  from time_label_case_sensitive [OF tbl lower_examples(1) ne, of True]
  show ?thesis by (simp add: lower_examples)
qed

text \<open>
  The claim as first stated makes the upper-case form of a code resolve as the
  lower-case form does. It does not, for a season code and for \<^verbatim>\<open>'ann'\<close> alike.
\<close>

theorem time_label_upper_case_differs:
  "time_label (IntvlStr ''JJA'') True \<noteq> time_label (IntvlStr ''jja'') True \<and>
   time_label (IntvlStr ''JJA'') True = Inl UnboundLocalError \<and>
   time_label (IntvlStr ''Ann'') True = Inl UnboundLocalError \<and>
   time_label (IntvlStr ''ann'') True =
     Inr (LabelValue ''ann'' [1, 2, 3, 4, 5, 6, 7, 8, 9, 10, 11, 12])"
  by (simp add: time_label_str labels_def py_range_1_13)

section \<open>File names with no naming branch\<close>

lemma str_in_hr_examples:
  "str_in ''hr'' ''3hr''" "\<not> str_in ''hr'' ''weekly''" "\<not> str_in ''hr'' ''seasonal''"
  "\<not> str_in ''hr'' ''annual''"
  by code_simp+

lemma naming_branch_examples:
  "\<not> naming_branch ''foo'' ''annual''"
  "\<not> naming_branch ''ts'' ''weekly''"
  "\<not> naming_branch ''av'' ''seasonal''"
  "naming_branch ''inst'' ''3hr''"
  by (simp_all add: naming_branch_def str_in_hr_examples)

lemma naming_branch_ts:
  assumes "data_type \<in> set [''ts'', ''inst'']"
  shows "naming_branch data_type intvl_type \<longleftrightarrow>
       intvl_type = ''annual'' \<or> intvl_type = ''monthly'' \<or> intvl_type = ''daily'' \<or>
       str_in ''hr'' intvl_type"
proof -
  from assms have "data_type = ''ts'' \<or> data_type = ''inst''" by simp
  then show ?thesis
  proof
    assume "data_type = ''ts''"
    then show ?thesis unfolding naming_branch_def by simp
  next
    assume "data_type = ''inst''"
    then show ?thesis unfolding naming_branch_def by simp
  qed
qed

lemma naming_branch_av:
  "naming_branch ''av'' intvl_type \<longleftrightarrow>
     intvl_type \<in> set [''annual'', ''ann'', ''monthly'', ''mon'']"
  unfolding naming_branch_def by simp

lemma naming_branch_other:
  "data_type \<notin> set [''ts'', ''inst''] \<Longrightarrow> data_type \<noteq> ''av'' \<Longrightarrow>
     naming_branch data_type intvl_type \<longleftrightarrow> data_type = ''av_ts''"
  unfolding naming_branch_def by simp

lemma av_label_unlisted:
  "intvl_type \<notin> set [''annual'', ''ann'', ''monthly'', ''mon''] \<Longrightarrow>
     av_label intvl_type intvl = Inl UnboundLocalError"
  by (simp add: av_label_def)

text \<open>
  Claim C7. When the data type and the interval type match no naming branch, which
  covers every unknown data type, a time series with an interval type that is neither
  annual, monthly, daily nor one with \<^verbatim>\<open>hr\<close> in it, and the time-averaged data type
  with a seasonal (or any unlisted) interval type, \<open>nc_name_gfdl\<close> raises and returns no
  file name. The exception is Python's \<^verbatim>\<open>UnboundLocalError\<close>, from reading \<^verbatim>\<open>gfdl_file\<close>
  or \<^verbatim>\<open>label\<close> before any assignment; a duration of zero raises
  \<^verbatim>\<open>ZeroDivisionError\<close> before that.
\<close>

theorem nc_name_gfdl_no_branch:
  assumes "\<not> naming_branch data_type intvl_type"
  shows "nc_name_gfdl name domain data_type intvl_type data_yr intvl nc_start_yr nc_dur =
           Inl (if nc_dur = 0 then ZeroDivisionError else UnboundLocalError)"
proof (cases "nc_dur = 0")
  case True
  then show ?thesis by (simp add: nc_name_gfdl_def)
next
  case dur: False
  show ?thesis
  proof (cases "data_type \<in> set [''ts'', ''inst'']")
    case True
    from assms have "intvl_type \<noteq> ''annual''" "intvl_type \<noteq> ''monthly''"
      "intvl_type \<noteq> ''daily''" "\<not> str_in ''hr'' intvl_type"
      by (simp_all add: naming_branch_ts [OF True])
    with True dur show ?thesis unfolding nc_name_gfdl_def Let_def by simp
  next
    case nts: False
    show ?thesis
    proof (cases "data_type = ''av''")
      case True
      with assms have "intvl_type \<notin> set [''annual'', ''ann'', ''monthly'', ''mon'']"
        by (simp only: naming_branch_av not_False_eq_True)
      then have "av_label intvl_type intvl = Inl UnboundLocalError"
        by (rule av_label_unlisted)
      with True dur show ?thesis unfolding nc_name_gfdl_def Let_def by simp
    next
      case nav: False
      from assms have "data_type \<noteq> ''av_ts''"
        by (simp add: naming_branch_other [OF nts nav])
      with nts nav dur show ?thesis unfolding nc_name_gfdl_def Let_def by simp
    qed
  qed
qed

theorem nc_name_gfdl_no_branch_witness:
  "nc_name_gfdl ''temp'' ''atmos'' ''foo'' ''annual'' 21 (IntvlInt 1) 1 5 = Inl UnboundLocalError \<and>
   nc_name_gfdl ''temp'' ''atmos'' ''ts'' ''weekly'' 21 (IntvlInt 1) 1 5 = Inl UnboundLocalError \<and>
   nc_name_gfdl ''temp'' ''atmos'' ''av'' ''seasonal'' 21 (IntvlStr ''jja'') 1 5 =
     Inl UnboundLocalError"
  using nc_name_gfdl_no_branch [OF naming_branch_examples(1), of "''temp''" "''atmos''" 21 "IntvlInt 1" 1 5]
    nc_name_gfdl_no_branch [OF naming_branch_examples(2), of "''temp''" "''atmos''" 21 "IntvlInt 1" 1 5]
    nc_name_gfdl_no_branch [OF naming_branch_examples(3), of "''temp''" "''atmos''" 21 "IntvlStr ''jja''" 1 5]
  by simp

text \<open>
  Conversely, a pair with a naming branch and a duration other than zero gives a file
  name, provided that for the monthly time average the interval itself resolves.
\<close>

lemma av_label_listed:
  assumes "intvl_type \<in> set [''annual'', ''ann'', ''monthly'', ''mon'']"
    and "intvl_type \<in> set [''monthly'', ''mon''] \<longrightarrow>
           (\<exists>l v. time_label intvl True = Inr (LabelValue l v))"
  shows "\<exists>label. av_label intvl_type intvl = Inr label"
proof (cases "intvl_type \<in> set [''annual'', ''ann'']")
  case True
  then show ?thesis by (simp add: av_label_def)
next
  case False
  with assms(1) have m: "intvl_type \<in> set [''monthly'', ''mon'']" by simp
  with assms(2) obtain l v where "time_label intvl True = Inr (LabelValue l v)" by iprover
  moreover from m have "intvl_type \<notin> set [''seasonal'', ''seas'']"
  proof -
    from m have "intvl_type = ''monthly'' \<or> intvl_type = ''mon''" by simp
    then show ?thesis by (rule disjE) simp_all
  qed
  ultimately show ?thesis using False m unfolding av_label_def by simp
qed

lemma nc_name_gfdl_branch_returns:
  assumes "naming_branch data_type intvl_type" and "nc_dur \<noteq> 0"
    and "intvl_type \<in> set [''monthly'', ''mon''] \<longrightarrow>
           (\<exists>l v. time_label intvl True = Inr (LabelValue l v))"
  shows "\<exists>f. nc_name_gfdl name domain data_type intvl_type data_yr intvl nc_start_yr nc_dur = Inr f"
proof (cases "data_type \<in> set [''ts'', ''inst'']")
  case True
  with assms(1) have "intvl_type = ''annual'' \<or> intvl_type = ''monthly'' \<or>
      intvl_type = ''daily'' \<or> str_in ''hr'' intvl_type"
    by (simp only: naming_branch_ts)
  with True assms(2) show ?thesis unfolding nc_name_gfdl_def Let_def by fastforce
next
  case nts: False
  show ?thesis
  proof (cases "data_type = ''av''")
    case True
    with assms(1) have "intvl_type \<in> set [''annual'', ''ann'', ''monthly'', ''mon'']"
      by (simp only: naming_branch_av)
    from av_label_listed [OF this assms(3)] obtain label
      where "av_label intvl_type intvl = Inr label" by iprover
    with True assms(2) show ?thesis unfolding nc_name_gfdl_def Let_def by simp
  next
    case nav: False
    from assms(1) have "data_type = ''av_ts''"
      unfolding naming_branch_other [OF nts nav] .
    with assms(2) show ?thesis unfolding nc_name_gfdl_def Let_def by simp
  qed
qed

section \<open>Selecting the indices of a time axis\<close>

lemma filter_enumerate:
  "map fst (filter (\<lambda>(i, d). P d) (enumerate n ds)) =
     filter (\<lambda>i. P (ds ! (i - n))) [n..<n + length ds]"
proof (induction ds arbitrary: n)
  case Nil
  then show ?case by simp
next
  case (Cons d ds)
  have same: "filter (\<lambda>i. P ((d # ds) ! (i - n))) [Suc n..<Suc n + length ds] =
        filter (\<lambda>i. P (ds ! (i - Suc n))) [Suc n..<Suc n + length ds]"
  proof (rule filter_cong [OF refl])
    fix i
    assume "i \<in> set [Suc n..<Suc n + length ds]"
    then have "Suc n \<le> i" by (simp only: set_upt atLeastLessThan_iff)
    then have "i - n = Suc (i - Suc n)" by arith
    then show "P ((d # ds) ! (i - n)) = P (ds ! (i - Suc n))" by simp
  qed
  have "map fst (filter (\<lambda>(i, d). P d) (enumerate n (d # ds))) =
        (if P d then [n] else []) @ map fst (filter (\<lambda>(i, d). P d) (enumerate (Suc n) ds))"
    by simp
  also have "\<dots> = (if P d then [n] else []) @
        filter (\<lambda>i. P (ds ! (i - Suc n))) [Suc n..<Suc n + length ds]"
    by (simp only: Cons.IH)
  also have "\<dots> = (if P d then [n] else []) @
        filter (\<lambda>i. P ((d # ds) ! (i - n))) [Suc n..<Suc n + length ds]"
    by (simp only: same)
  also have "\<dots> = filter (\<lambda>i. P ((d # ds) ! (i - n))) (n # [Suc n..<Suc n + length ds])"
    by (simp del: upt_Suc)
  also have "n # [Suc n..<Suc n + length ds] = [n..<n + length (d # ds)]"
    by (simp add: upt_conv_Cons del: upt_Suc)
  finally show ?case .
qed

lemma select_inds_filter:
  "select_inds dates start_yr end_yr months =
     filter (selected dates start_yr end_yr months) [0..<length dates]"
proof -
  have "select_inds dates start_yr end_yr months =
          filter (\<lambda>i. month (dates ! (i - 0)) \<in> set months \<and>
                       year (dates ! (i - 0)) \<in> set (py_range start_yr (end_yr + 1)))
            [0..<0 + length dates]"
    unfolding select_inds_def by (rule filter_enumerate)
  also have "\<dots> = filter (selected dates start_yr end_yr months) [0..<length dates]"
    by (rule filter_cong) (auto simp add: py_range_iff selected_def)
  finally show ?thesis .
qed

lemma select_inds_iff:
  "i \<in> set (select_inds dates start_yr end_yr months) \<longleftrightarrow>
     i < length dates \<and> selected dates start_yr end_yr months i"
  by (auto simp add: select_inds_filter)

lemma select_inds_sorted: "sorted (select_inds dates start_yr end_yr months)"
  by (simp add: select_inds_filter sorted_wrt_filter)

lemma select_inds_distinct: "distinct (select_inds dates start_yr end_yr months)"
  by (simp add: select_inds_filter)

lemma select_inds_empty:
  "select_inds dates start_yr end_yr months = [] \<longleftrightarrow>
     (\<forall>i < length dates. \<not> selected dates start_yr end_yr months i)"
  by (auto simp add: select_inds_filter filter_empty_conv)

lemma index_list_in_range:
  "inds \<noteq> [] \<Longrightarrow> \<forall>i \<in> set inds. i < length time \<Longrightarrow>
     index_list time inds = Inr (map (\<lambda>i. time ! i) inds)"
  by (simp add: index_list_def)

lemma index_list_empty: "index_list time [] = Inl IndexError"
  by (simp add: index_list_def)

text \<open>
  Claim C9, as amended. With the axis decoded to \<open>dates\<close>, one date for each value of
  \<open>time\<close>, \<open>get_time\<close> selects position \<open>i\<close> if and only if the year of \<open>dates ! i\<close> is
  in the range from \<open>start_yr\<close> to \<open>end_yr\<close>, both included, and its month is in
  \<open>months\<close>; the selected positions come in the order of the axis. For
  \<^verbatim>\<open>indices='only'\<close> it returns the positions, and the empty list when no date
  qualifies. For \<^verbatim>\<open>indices=True\<close> it returns the positions and the values of \<open>time\<close> at
  them, and for \<^verbatim>\<open>indices=False\<close> the values alone, as long as some date qualifies;
  when none does, \<^verbatim>\<open>time[inds]\<close> with the empty list raises \<^verbatim>\<open>IndexError\<close> in both.
\<close>

theorem get_time_selects:
  assumes "num2date time units (lower calendar) = Inr dates"
    and "length dates = length time"
  shows "get_time num2date time units calendar start_yr end_yr months (IdxStr ''only'') =
           Inr (Inds (filter (selected dates start_yr end_yr months) [0..<length time])) \<and>
         (\<forall>i. i \<in> set (filter (selected dates start_yr end_yr months) [0..<length time]) \<longleftrightarrow>
            i < length time \<and> start_yr \<le> year (dates ! i) \<and> year (dates ! i) \<le> end_yr \<and>
            month (dates ! i) \<in> set months) \<and>
         ((\<exists>i < length time. start_yr \<le> year (dates ! i) \<and> year (dates ! i) \<le> end_yr \<and>
                               month (dates ! i) \<in> set months) \<longrightarrow>
            get_time num2date time units calendar start_yr end_yr months (IdxBool True) =
              Inr (IndsValues (filter (selected dates start_yr end_yr months) [0..<length time])
                     (map (\<lambda>i. time ! i)
                        (filter (selected dates start_yr end_yr months) [0..<length time]))) \<and>
            get_time num2date time units calendar start_yr end_yr months (IdxBool False) =
              Inr (Values (map (\<lambda>i. time ! i)
                     (filter (selected dates start_yr end_yr months) [0..<length time])))) \<and>
         ((\<forall>i < length time. \<not> (start_yr \<le> year (dates ! i) \<and> year (dates ! i) \<le> end_yr \<and>
                                  month (dates ! i) \<in> set months)) \<longrightarrow>
            get_time num2date time units calendar start_yr end_yr months (IdxStr ''only'') =
              Inr (Inds []) \<and>
            get_time num2date time units calendar start_yr end_yr months (IdxBool True) =
              Inl IndexError \<and>
            get_time num2date time units calendar start_yr end_yr months (IdxBool False) =
              Inl IndexError)"
proof -
  let ?inds = "select_inds dates start_yr end_yr months"
  let ?sel = "filter (selected dates start_yr end_yr months) [0..<length time]"
  let ?some = "\<exists>i < length time. start_yr \<le> year (dates ! i) \<and> year (dates ! i) \<le> end_yr \<and>
                               month (dates ! i) \<in> set months"
  have inds: "?inds = ?sel"
    using assms(2) by (simp add: select_inds_filter)
  have in_range: "\<forall>i \<in> set ?sel. i < length time" by simp
  have iff: "\<forall>i. i \<in> set ?sel \<longleftrightarrow>
      i < length time \<and> start_yr \<le> year (dates ! i) \<and> year (dates ! i) \<le> end_yr \<and>
      month (dates ! i) \<in> set months"
    by (simp add: selected_def)
  have c1: "get_time num2date time units calendar start_yr end_yr months (IdxStr ''only'') =
      Inr (Inds ?sel)"
    using assms(1) by (simp add: get_time_def Let_def inds)
  have c3: "?some \<longrightarrow>
      get_time num2date time units calendar start_yr end_yr months (IdxBool True) =
        Inr (IndsValues ?sel (map (\<lambda>i. time ! i) ?sel)) \<and>
      get_time num2date time units calendar start_yr end_yr months (IdxBool False) =
        Inr (Values (map (\<lambda>i. time ! i) ?sel))"
  proof
    assume ?some
    then obtain i where "i < length time" and "selected dates start_yr end_yr months i"
      unfolding selected_def by blast
    then have "i \<in> set ?sel" by simp
    then have "?sel \<noteq> []" by (rule_tac notI) simp
    then have vals: "index_list time ?sel = Inr (map (\<lambda>i. time ! i) ?sel)"
      using in_range by (rule index_list_in_range)
    have "get_time num2date time units calendar start_yr end_yr months (IdxBool True) =
        Inr (IndsValues ?sel (map (\<lambda>i. time ! i) ?sel))"
      using assms(1) vals by (simp add: get_time_def Let_def inds)
    moreover have "get_time num2date time units calendar start_yr end_yr months (IdxBool False) =
        Inr (Values (map (\<lambda>i. time ! i) ?sel))"
      using assms(1) vals by (simp add: get_time_def Let_def inds)
    ultimately show "get_time num2date time units calendar start_yr end_yr months (IdxBool True) =
        Inr (IndsValues ?sel (map (\<lambda>i. time ! i) ?sel)) \<and>
      get_time num2date time units calendar start_yr end_yr months (IdxBool False) =
        Inr (Values (map (\<lambda>i. time ! i) ?sel))" ..
  qed
  have c4: "(\<forall>i < length time. \<not> (start_yr \<le> year (dates ! i) \<and> year (dates ! i) \<le> end_yr \<and>
                                  month (dates ! i) \<in> set months)) \<longrightarrow>
            get_time num2date time units calendar start_yr end_yr months (IdxStr ''only'') =
              Inr (Inds []) \<and>
            get_time num2date time units calendar start_yr end_yr months (IdxBool True) =
              Inl IndexError \<and>
            get_time num2date time units calendar start_yr end_yr months (IdxBool False) =
              Inl IndexError"
  proof
    assume "\<forall>i < length time. \<not> (start_yr \<le> year (dates ! i) \<and> year (dates ! i) \<le> end_yr \<and>
                                  month (dates ! i) \<in> set months)"
    then have none: "?sel = []" by (simp add: filter_empty_conv selected_def)
    have "get_time num2date time units calendar start_yr end_yr months (IdxStr ''only'') = Inr (Inds [])"
      using c1 unfolding none .
    moreover have "get_time num2date time units calendar start_yr end_yr months (IdxBool True) = Inl IndexError"
      using assms(1) by (simp add: get_time_def Let_def inds none index_list_empty)
    moreover have "get_time num2date time units calendar start_yr end_yr months (IdxBool False) = Inl IndexError"
      using assms(1) by (simp add: get_time_def Let_def inds none index_list_empty)
    ultimately show "get_time num2date time units calendar start_yr end_yr months (IdxStr ''only'') =
              Inr (Inds []) \<and>
            get_time num2date time units calendar start_yr end_yr months (IdxBool True) =
              Inl IndexError \<and>
            get_time num2date time units calendar start_yr end_yr months (IdxBool False) =
              Inl IndexError"
      by (intro conjI)
  qed
  from c1 iff c3 c4 show ?thesis by (intro conjI)
qed

text \<open>
  An axis of five dates, decoded by a function that reads each raw value as a pair of a
  year and a month: the summers of 1981 and 1982 select the positions 1 and 3, and the
  nineties select nothing.
\<close>

lemma selected_example:
  "filter (selected
     [\<lparr>year = 1980, month = 6\<rparr>, \<lparr>year = 1981, month = 6\<rparr>, \<lparr>year = 1981, month = 9\<rparr>,
      \<lparr>year = 1982, month = 7\<rparr>, \<lparr>year = 1983, month = 7\<rparr>] 1981 1982 [6, 7, 8]) [0..<5] = [1, 3]"
  "filter (selected
     [\<lparr>year = 1980, month = 6\<rparr>, \<lparr>year = 1981, month = 6\<rparr>, \<lparr>year = 1981, month = 9\<rparr>,
      \<lparr>year = 1982, month = 7\<rparr>, \<lparr>year = 1983, month = 7\<rparr>] 1990 1999 [6, 7, 8]) [0..<5] = []"
  by code_simp+

lemma select_inds_example:
  "select_inds
     [\<lparr>year = 1980, month = 6\<rparr>, \<lparr>year = 1981, month = 6\<rparr>, \<lparr>year = 1981, month = 9\<rparr>,
      \<lparr>year = 1982, month = 7\<rparr>, \<lparr>year = 1983, month = 7\<rparr>] 1990 1999 [6, 7, 8] = []"
  by code_simp

theorem get_time_selects_witness:
  "get_time (\<lambda>t u c. Inr (map (\<lambda>(y, m). \<lparr>year = y, month = m\<rparr>) t))
     [(1980, 6), (1981, 6), (1981, 9), (1982, 7), (1983, 7)] ''days since 0001-01-01'' ''NOLEAP''
     1981 1982 [6, 7, 8] (IdxStr ''only'') =
     Inr (Inds [1, 3]) \<and>
   get_time (\<lambda>t u c. Inr (map (\<lambda>(y, m). \<lparr>year = y, month = m\<rparr>) t))
     [(1980, 6), (1981, 6), (1981, 9), (1982, 7), (1983, 7)] ''days since 0001-01-01'' ''NOLEAP''
     1981 1982 [6, 7, 8] (IdxBool True) =
     Inr (IndsValues [1, 3] [(1981, 6), (1982, 7)]) \<and>
   get_time (\<lambda>t u c. Inr (map (\<lambda>(y, m). \<lparr>year = y, month = m\<rparr>) t))
     [(1980, 6), (1981, 6), (1981, 9), (1982, 7), (1983, 7)] ''days since 0001-01-01'' ''NOLEAP''
     1981 1982 [6, 7, 8] (IdxBool False) =
     Inr (Values [(1981, 6), (1982, 7)]) \<and>
   get_time (\<lambda>t u c. Inr (map (\<lambda>(y, m). \<lparr>year = y, month = m\<rparr>) t))
     [(1980, 6), (1981, 6), (1981, 9), (1982, 7), (1983, 7)] ''days since 0001-01-01'' ''NOLEAP''
     1990 1999 [6, 7, 8] (IdxStr ''only'') =
     Inr (Inds [])"
proof -
  let ?dec = "\<lambda>(t :: (int \<times> int) list) (u :: string) (c :: string).
                (Inr (map (\<lambda>(y, m). \<lparr>year = y, month = m\<rparr>) t) :: pyexc + date list)"
  let ?time = "[(1980, 6), (1981, 6), (1981, 9), (1982, 7), (1983, 7)] :: (int \<times> int) list"
  let ?dates = "[\<lparr>year = 1980, month = 6\<rparr>, \<lparr>year = 1981, month = 6\<rparr>, \<lparr>year = 1981, month = 9\<rparr>,
      \<lparr>year = 1982, month = 7\<rparr>, \<lparr>year = 1983, month = 7\<rparr>]"
  have dec: "?dec ?time ''days since 0001-01-01'' (lower ''NOLEAP'') = Inr ?dates" by simp
  have len: "length ?dates = length ?time" by simp
  have five: "length ?time = 5" by simp
  have some: "\<exists>i < length ?time. (1981 :: int) \<le> year (?dates ! i) \<and> year (?dates ! i) \<le> 1982 \<and>
      month (?dates ! i) \<in> set [6, 7, 8]"
    by (rule exI [of _ 1]) simp
  note sel = get_time_selects [of ?dec ?time "''days since 0001-01-01''" "''NOLEAP''" ?dates,
      OF dec len]
  from sel [of 1981 1982 "[6, 7, 8]", THEN conjunct1]
    sel [of 1981 1982 "[6, 7, 8]", THEN conjunct2, THEN conjunct2, THEN conjunct1, THEN mp, OF some]
    sel [of 1990 1999 "[6, 7, 8]", THEN conjunct1]
  show ?thesis unfolding five selected_example by simp
qed

text \<open>
  The claim as first stated has an empty selection returned without an error however
  the function is called. On the same axis the nineties select nothing, and the two
  calls that index the axis raise.
\<close>

theorem get_time_empty_selection_raises:
  "get_time (\<lambda>t u c. Inr (map (\<lambda>(y, m). \<lparr>year = y, month = m\<rparr>) t))
     [(1980, 6), (1981, 6), (1981, 9), (1982, 7), (1983, 7)] ''days since 0001-01-01'' ''NOLEAP''
     1990 1999 [6, 7, 8] (IdxBool True) =
     Inl IndexError \<and>
   get_time (\<lambda>t u c. Inr (map (\<lambda>(y, m). \<lparr>year = y, month = m\<rparr>) t))
     [(1980, 6), (1981, 6), (1981, 9), (1982, 7), (1983, 7)] ''days since 0001-01-01'' ''NOLEAP''
     1990 1999 [6, 7, 8] (IdxBool False) =
     Inl IndexError"
  by (simp add: get_time_def Let_def select_inds_example index_list_empty)

section \<open>Month indices of a string\<close>

subsection \<open>\<open>find\<close> returns the first occurrence\<close>

lemma find_from_first:
  "first_occurrence hay sub p \<Longrightarrow> find_from i hay sub = int (i + p)"
proof (induction hay arbitrary: i p)
  case Nil
  then show ?case by (simp add: first_occurrence_def)
next
  case (Cons c cs)
  show ?case
  proof (cases p)
    case 0
    with Cons.prems show ?thesis by (simp add: first_occurrence_def)
  next
    case (Suc p')
    from Cons.prems Suc have le: "p' \<le> length cs" and pre: "prefix sub (drop p' cs)"
      by (simp_all add: first_occurrence_def)
    from Cons.prems Suc have no: "\<not> prefix sub (drop q (c # cs))" if "q < Suc p'" for q
      using that by (simp add: first_occurrence_def)
    from no [of 0] have head: "\<not> prefix sub (c # cs)" by simp
    have "\<not> prefix sub (drop q cs)" if "q < p'" for q
      using no [of "Suc q"] that by simp
    with le pre have "first_occurrence cs sub p'" by (simp add: first_occurrence_def)
    then have "find_from (Suc i) cs sub = int (Suc i + p')" by (rule Cons.IH)
    with head Suc show ?thesis by simp
  qed
qed

lemma find_from_none:
  "(\<And>p. p \<le> length hay \<Longrightarrow> \<not> prefix sub (drop p hay)) \<Longrightarrow> find_from i hay sub = - 1"
proof (induction hay arbitrary: i)
  case Nil
  from Nil [of 0] show ?case by simp
next
  case (Cons c cs)
  from Cons.prems [of 0] have head: "\<not> prefix sub (c # cs)" by simp
  have "\<not> prefix sub (drop p cs)" if "p \<le> length cs" for p
    using Cons.prems [of "Suc p"] that by simp
  then have "find_from (Suc i) cs sub = - 1" by (rule Cons.IH)
  with head show ?case by simp
qed

lemma find_first: "first_occurrence hay sub p \<Longrightarrow> find hay sub = int p"
  unfolding find_def using find_from_first [of hay sub p 0] by simp

lemma prefix_drop_sublist: "prefix sub (drop p hay) \<Longrightarrow> sublist sub hay"
proof -
  assume "prefix sub (drop p hay)"
  then obtain ss where "drop p hay = sub @ ss" by (auto simp add: prefix_def)
  then have "hay = take p hay @ sub @ ss" by (metis append_take_drop_id)
  then show ?thesis unfolding sublist_def by blast
qed

lemma sublist_prefix_drop:
  assumes "sublist sub hay"
  shows "\<exists>p \<le> length hay. prefix sub (drop p hay)"
proof -
  from assms obtain ps ss where "hay = ps @ sub @ ss" unfolding sublist_def by blast
  then have "length ps \<le> length hay \<and> prefix sub (drop (length ps) hay)" by simp
  then show ?thesis by blast
qed

lemma find_none: "\<not> sublist sub hay \<Longrightarrow> find hay sub = - 1"
  unfolding find_def by (rule find_from_none) (blast dest: prefix_drop_sublist)

lemma first_occurrence_sublist: "first_occurrence hay sub p \<Longrightarrow> sublist sub hay"
  unfolding first_occurrence_def by (blast dest: prefix_drop_sublist)

lemma sublist_first_occurrence:
  assumes "sublist sub hay"
  shows "\<exists>p. first_occurrence hay sub p"
proof -
  let ?P = "\<lambda>p. p \<le> length hay \<and> prefix sub (drop p hay)"
  from sublist_prefix_drop [OF assms] obtain p0 where "?P p0" by blast
  then have least: "?P (LEAST p. ?P p)" by (rule LeastI)
  have "\<not> prefix sub (drop q hay)" if "q < (LEAST p. ?P p)" for q
  proof -
    from that have "\<not> ?P q" by (rule not_less_Least)
    moreover from that least have "q \<le> length hay" by simp
    ultimately show ?thesis by simp
  qed
  with least have "first_occurrence hay sub (LEAST p. ?P p)"
    by (simp add: first_occurrence_def)
  then show ?thesis ..
qed

lemma first_occurrence_unique:
  "first_occurrence hay sub p \<Longrightarrow> first_occurrence hay sub q \<Longrightarrow> p = q"
  using find_first [of hay sub p] find_first [of hay sub q] by simp

subsection \<open>\<open>month_indices\<close> on a string\<close>

lemma ann_absent: "find first_letter ''ann'' = - 1"
  by code_simp

lemma month_indices_ann:
  "lower s = ''ann'' \<Longrightarrow> month_indices (MonStr s) iterable = Inr (MonthList (py_range 1 13))"
  by (simp add: month_indices_def)

lemma month_indices_other:
  "lower s \<noteq> ''ann'' \<Longrightarrow>
     month_indices (MonStr s) iterable =
       Inr (MonthList (py_range (find first_letter (lower s) + 1)
                         (find first_letter (lower s) + 1 + int (length s))))"
  by (simp add: month_indices_def Let_def)

lemma first_occurrence_not_ann:
  assumes "first_occurrence first_letter (lower s) p"
  shows "lower s \<noteq> ''ann''"
proof
  assume "lower s = ''ann''"
  with assms have "find first_letter ''ann'' = int p" by (simp only: find_first)
  with ann_absent show False by simp
qed

text \<open>
  Claim C10. \<open>month_indices\<close> returns a list for every string and never raises. The
  lower-cased string occurs in the doubled sequence of month initials exactly when it
  has a first occurrence there; if \<open>p\<close> is the position of the first occurrence, the
  result is the run of \<open>length s\<close> consecutive integers that starts at \<open>p + 1\<close>, which
  for a name that wraps around the end of the year, such as \<^verbatim>\<open>ndj\<close>, goes beyond 12.
  For a string that is not \<^verbatim>\<open>ann\<close> in any case and does not occur in the sequence,
  the result is \<^verbatim>\<open>range(0, len(s))\<close>, which starts at 0.
\<close>

theorem month_indices_string:
  "(\<exists>r. month_indices (MonStr s) iterable = Inr (MonthList r)) \<and>
   (sublist (lower s) first_letter \<longleftrightarrow> (\<exists>q. first_occurrence first_letter (lower s) q)) \<and>
   (first_occurrence first_letter (lower s) p \<longrightarrow>
      month_indices (MonStr s) iterable =
        Inr (MonthList (py_range (int p + 1) (int p + 1 + int (length s))))) \<and>
   (lower s \<noteq> ''ann'' \<and> \<not> sublist (lower s) first_letter \<longrightarrow>
      month_indices (MonStr s) iterable = Inr (MonthList (py_range 0 (int (length s)))))"
proof -
  have total: "\<exists>r. month_indices (MonStr s) iterable = Inr (MonthList r)"
  proof (cases "lower s = ''ann''")
    case True
    from month_indices_ann [OF True, of iterable] show ?thesis by simp
  next
    case False
    from month_indices_other [OF False, of iterable] show ?thesis by simp
  qed
  have occurs: "sublist (lower s) first_letter \<longleftrightarrow>
      (\<exists>q. first_occurrence first_letter (lower s) q)"
  proof
    assume "sublist (lower s) first_letter"
    then show "\<exists>q. first_occurrence first_letter (lower s) q" by (rule sublist_first_occurrence)
  next
    assume "\<exists>q. first_occurrence first_letter (lower s) q"
    then obtain q where "first_occurrence first_letter (lower s) q" ..
    then show "sublist (lower s) first_letter" by (rule first_occurrence_sublist)
  qed
  have found: "first_occurrence first_letter (lower s) p \<longrightarrow>
      month_indices (MonStr s) iterable =
        Inr (MonthList (py_range (int p + 1) (int p + 1 + int (length s))))"
  proof
    assume fo: "first_occurrence first_letter (lower s) p"
    then have "lower s \<noteq> ''ann''" by (rule first_occurrence_not_ann)
    then have "month_indices (MonStr s) iterable =
       Inr (MonthList (py_range (find first_letter (lower s) + 1)
                         (find first_letter (lower s) + 1 + int (length s))))"
      by (rule month_indices_other)
    then show "month_indices (MonStr s) iterable =
        Inr (MonthList (py_range (int p + 1) (int p + 1 + int (length s))))"
      unfolding find_first [OF fo] .
  qed
  have absent: "lower s \<noteq> ''ann'' \<and> \<not> sublist (lower s) first_letter \<longrightarrow>
      month_indices (MonStr s) iterable = Inr (MonthList (py_range 0 (int (length s))))"
  proof
    assume a: "lower s \<noteq> ''ann'' \<and> \<not> sublist (lower s) first_letter"
    from a have "\<not> sublist (lower s) first_letter" ..
    then have ns: "find first_letter (lower s) = - 1" by (rule find_none)
    from a have "lower s \<noteq> ''ann''" ..
    then have "month_indices (MonStr s) iterable =
       Inr (MonthList (py_range (find first_letter (lower s) + 1)
                         (find first_letter (lower s) + 1 + int (length s))))"
      by (rule month_indices_other)
    then show "month_indices (MonStr s) iterable = Inr (MonthList (py_range 0 (int (length s))))"
      unfolding ns by simp
  qed
  from total occurs found absent show ?thesis by (intro conjI)
qed

text \<open>
  \<^verbatim>\<open>NDJ\<close> is found at position 10 of the doubled sequence and gives the months 11, 12
  and 13; \<^verbatim>\<open>xyz\<close> is found nowhere and gives 0, 1 and 2.
\<close>

lemma month_string_examples:
  "first_occurrence first_letter (lower ''NDJ'') 10"
  "lower ''xyz'' \<noteq> ''ann''"
  "\<not> sublist (lower ''xyz'') first_letter"
  by code_simp+

lemma py_range_examples:
  "py_range 11 14 = [11, 12, 13]" "py_range 0 3 = [0, 1, 2]" "py_range 1 1 = []"
  by code_simp+

theorem month_indices_string_witness:
  "month_indices (MonStr ''NDJ'') True = Inr (MonthList [11, 12, 13]) \<and>
   month_indices (MonStr ''xyz'') True = Inr (MonthList [0, 1, 2])"
  using month_indices_string [of "''NDJ''" True 10, THEN conjunct2, THEN conjunct2,
      THEN conjunct1, THEN mp, OF month_string_examples(1)]
    month_indices_string [of "''xyz''" True 0, THEN conjunct2, THEN conjunct2,
      THEN conjunct2, THEN mp, OF conjI [OF month_string_examples(2) month_string_examples(3)]]
  by (simp add: py_range_examples)

lemma month_indices_examples:
  "month_indices (MonStr ''jja'') True = Inr (MonthList [6, 7, 8])"
  "month_indices (MonStr ''Ann'') True = Inr (MonthList [1, 2, 3, 4, 5, 6, 7, 8, 9, 10, 11, 12])"
  "month_indices (MonStr '''') True = Inr (MonthList [])"
  "month_indices (MonStr ''djf'') True = Inr (MonthList [12, 13, 14])"
  by code_simp+

end
